theory Spec2Isabelle
  imports Complex_Main
begin

text \<open>
  A model of the video export pipeline of a browser application that composites a
  decorative frame (the overlay) onto a user's video on a fixed 1080 by 1920 canvas:
  the geometry and the drawing calls of its three compositors
  (\<open>VideoFrameProcessor.processFrame\<close>, the frame loop of
  \<open>FallbackVideoProcessor.processVideo\<close>, \<open>VideoEditor.drawFrame\<close>), the real-time
  capture jobs of \<open>FallbackVideoProcessor\<close> and \<open>VideoFrameProcessor\<close>, the encoder
  adapter \<open>FFmpegVideoProcessor\<close> with the command it builds, and the selector
  \<open>VideoProcessor\<close> that falls back from the encoder to real-time capture. The
  definitions come first, the properties proved of them follow.
\<close>

section \<open>Canvas geometry of the three compositors\<close>

text \<open>
  The output canvas is 1080 by 1920 everywhere in the repository. JavaScript numbers are
  modelled as rationals: every finite double is a rational, and the arithmetic below is
  taken exact (no rounding). A computation whose JavaScript value is NaN or infinite has
  the value \<open>None\<close>. \<open>videoWidth\<close> and \<open>videoHeight\<close> of a video element are unsigned
  integers.
\<close>

record rect =
  offsetX :: rat
  offsetY :: rat
  drawWidth :: rat
  drawHeight :: rat

text \<open>
  \<open>VideoFrameProcessor.processFrame\<close>:
  \<^verbatim>\<open>
    const videoAspect = videoWidth / videoHeight;
    const targetAspect = targetWidth / targetHeight;
    if (videoAspect > targetAspect) {
        drawHeight = targetHeight;
        drawWidth = targetHeight * videoAspect;
        offsetX = (targetWidth - drawWidth) / 2;
        offsetY = 0;
    } else {
        drawWidth = targetWidth;
        drawHeight = targetWidth / videoAspect;
        offsetX = 0;
        offsetY = (targetHeight - drawHeight) / 2;
    }
  \<close>
  With \<open>videoHeight = 0\<close> the aspect is infinite or NaN, with \<open>videoWidth = 0\<close> the
  division \<open>targetWidth / videoAspect\<close> is infinite: some coordinate is not finite.
\<close>

definition VideoFrameProcessor_geometry :: "nat \<Rightarrow> nat \<Rightarrow> rect option" where
  "VideoFrameProcessor_geometry videoWidth videoHeight =
     (if videoWidth = 0 \<or> videoHeight = 0 then None
      else
        let targetWidth = 1080; targetHeight = 1920;
            videoAspect = of_nat videoWidth / of_nat videoHeight;
            targetAspect = targetWidth / targetHeight
        in if videoAspect > targetAspect
           then Some \<lparr>offsetX = (targetWidth - targetHeight * videoAspect) / 2, offsetY = 0,
                       drawWidth = targetHeight * videoAspect, drawHeight = targetHeight\<rparr>
           else Some \<lparr>offsetX = 0, offsetY = (targetHeight - targetWidth / videoAspect) / 2,
                       drawWidth = targetWidth, drawHeight = targetWidth / videoAspect\<rparr>)"

text \<open>
  \<open>FallbackVideoProcessor.processVideo\<close>, inside \<open>processFrames\<close>
  (video-processor-ffmpeg-umd.js). The dimensions default to 1280 by 720 when the element
  reports zero:
  \<^verbatim>\<open>
    const videoWidth = processingVideo.videoWidth || 1280;
    const videoHeight = processingVideo.videoHeight || 720;
    const videoAspect = videoWidth / videoHeight;
    const targetAspect = 1080 / 1920;
    if (videoAspect > targetAspect) {
        drawHeight = 1920; drawWidth = 1920 * videoAspect;
        offsetX = (1080 - drawWidth) / 2; offsetY = 0;
    } else {
        drawWidth = 1080; drawHeight = 1080 / videoAspect;
        offsetX = 0; offsetY = (1920 - drawHeight) / 2;
    }
  \<close>
\<close>

definition Fallback_geometry :: "nat \<Rightarrow> nat \<Rightarrow> rect" where
  "Fallback_geometry vw vh =
     (let videoWidth = (if vw = 0 then 1280 else vw);
          videoHeight = (if vh = 0 then 720 else vh);
          videoAspect = of_nat videoWidth / of_nat videoHeight;
          targetAspect = 1080 / 1920
      in if videoAspect > targetAspect
         then \<lparr>offsetX = (1080 - 1920 * videoAspect) / 2, offsetY = 0,
                drawWidth = 1920 * videoAspect, drawHeight = 1920\<rparr>
         else \<lparr>offsetX = 0, offsetY = (1920 - 1080 / videoAspect) / 2,
                drawWidth = 1080, drawHeight = 1080 / videoAspect\<rparr>)"

text \<open>
  \<open>VideoEditor.drawFrame\<close> (the preview of the React video editor):
  \<^verbatim>\<open>
    const canvasAspect = 1080 / 1920
    const videoAspect = video.videoWidth / video.videoHeight
    if (videoAspect > canvasAspect) {
      drawWidth = 1080
      drawHeight = 1080 / videoAspect
      drawX = 0
      drawY = (1920 - drawHeight) / 2
    } else {
      drawHeight = 1920
      drawWidth = 1920 * videoAspect
      drawX = (1080 - drawWidth) / 2
      drawY = 0
    }
  \<close>
  With \<open>videoHeight = 0\<close> and a positive width the aspect is \<open>Infinity\<close>, the first branch
  is taken and \<open>1080 / Infinity\<close> is 0; with both zero the aspect is NaN, the second
  branch is taken and the width is NaN.
\<close>

definition VideoEditor_geometry :: "nat \<Rightarrow> nat \<Rightarrow> rect option" where
  "VideoEditor_geometry videoWidth videoHeight =
     (if videoHeight = 0
      then (if videoWidth = 0 then None
            else Some \<lparr>offsetX = 0, offsetY = (1920 - 0) / 2, drawWidth = 1080, drawHeight = 0\<rparr>)
      else
        let canvasAspect = 1080 / 1920;
            videoAspect = of_nat videoWidth / of_nat videoHeight
        in if videoAspect > canvasAspect
           then Some \<lparr>offsetX = 0, offsetY = (1920 - 1080 / videoAspect) / 2,
                       drawWidth = 1080, drawHeight = 1080 / videoAspect\<rparr>
           else Some \<lparr>offsetX = (1080 - 1920 * videoAspect) / 2, offsetY = 0,
                       drawWidth = 1920 * videoAspect, drawHeight = 1920\<rparr>)"

subsection \<open>The transform as the specification words it\<close>






section \<open>Compositing one frame\<close>

text \<open>
  A canvas is modelled by the drawing calls made on it, in order. \<open>drawImage\<close> with a
  coordinate that is not finite is recorded with \<open>None\<close> for its rectangle. The image
  smoothing settings and \<open>save\<close>/\<open>restore\<close> pairs around a call do not change where
  anything is drawn and are left out.

  An \<open>Image\<close> object that finished loading is \<open>Complete\<close>; one whose load failed is
  \<open>Broken\<close>.
\<close>

datatype image_state = Complete | Broken

datatype image_source = SourceFrame | OverlayAsset image_state

datatype draw_op =
    SetCanvasSize nat nat
  | FillRect string rat rat rat rat
  | DrawImage image_source "rect option"

definition full_canvas :: rect where
  "full_canvas = \<lparr>offsetX = 0, offsetY = 0, drawWidth = 1080, drawHeight = 1920\<rparr>"

text \<open>
  \<open>VideoFrameProcessor.processFrame\<close>: the canvas is sized, filled with black, the video
  frame is drawn, and
  \<^verbatim>\<open>
    if (this.frameImage) {
        this.ctx.drawImage(this.frameImage, 0, 0, targetWidth, targetHeight);
    }
  \<close>
\<close>

definition VideoFrameProcessor_processFrame :: "image_state option \<Rightarrow> nat \<Rightarrow> nat \<Rightarrow> draw_op list" where
  "VideoFrameProcessor_processFrame frameImage videoWidth videoHeight =
     [SetCanvasSize 1080 1920,
      FillRect ''#000000'' 0 0 1080 1920,
      DrawImage SourceFrame (VideoFrameProcessor_geometry videoWidth videoHeight)] @
     (case frameImage of
        None \<Rightarrow> []
      | Some img \<Rightarrow> [DrawImage (OverlayAsset img) (Some full_canvas)])"

text \<open>
  \<open>VideoFrameProcessor.loadFrame\<close> stores the new \<open>Image\<close> before its load is known:
  \<^verbatim>\<open>
    this.frameImage = new Image();
    this.frameImage.onload = () => resolve();
    this.frameImage.onerror = () => reject(new Error('Gagal load bingkai'));
  \<close>
\<close>

datatype js_error = Error string

definition VideoFrameProcessor_loadFrame :: "bool \<Rightarrow> image_state option \<Rightarrow> (js_error + unit) \<times> image_state option" where
  "VideoFrameProcessor_loadFrame loads frameImage =
     (if loads then (Inr (), Some Complete)
      else (Inl (Error ''Gagal load bingkai''), Some Broken))"

text \<open>
  The drawing part of \<open>processFrames\<close> in \<open>FallbackVideoProcessor.processVideo\<close>: black
  fill, video frame, then \<^verbatim>\<open>if (this.frameImage) ctx.drawImage(this.frameImage, 0, 0, 1080, 1920)\<close>.
\<close>

definition Fallback_drawFrame :: "image_state option \<Rightarrow> nat \<Rightarrow> nat \<Rightarrow> draw_op list" where
  "Fallback_drawFrame frameImage videoWidth videoHeight =
     [FillRect ''#000000'' 0 0 1080 1920,
      DrawImage SourceFrame (Some (Fallback_geometry videoWidth videoHeight))] @
     (case frameImage of
        None \<Rightarrow> []
      | Some img \<Rightarrow> [DrawImage (OverlayAsset img) (Some full_canvas)])"

text \<open>
  \<open>FallbackVideoProcessor.loadFrame\<close> stores the image only once it has loaded
  (\<^verbatim>\<open>img.onload = () => { this.frameImage = img; resolve(); }; img.onerror = reject;\<close>).
  The rejection value is the browser's error event.
\<close>

definition Fallback_loadFrame :: "bool \<Rightarrow> image_state option \<Rightarrow> (js_error + unit) \<times> image_state option" where
  "Fallback_loadFrame loads frameImage =
     (if loads then (Inr (), Some Complete)
      else (Inl (Error ''error event''), frameImage))"

text \<open>
  \<open>VideoEditor.drawFrame\<close> starts with a guard on its three references:
  \<^verbatim>\<open>
    const video = videoRef.current
    const canvas = canvasRef.current
    const frameImg = frameImageRef.current
    if (!video || !canvas || !frameImg) return
  \<close>
  then sizes the canvas, fills it with white, draws the video and the frame image. The
  video is given by its \<open>videoWidth\<close> and \<open>videoHeight\<close>. The frame reference is set in
  the image's \<open>onload\<close> handler only, so it is null after a failed load.
\<close>

definition VideoEditor_drawFrame :: "(nat \<times> nat) option \<Rightarrow> bool \<Rightarrow> image_state option \<Rightarrow> draw_op list" where
  "VideoEditor_drawFrame video canvas frameImg =
     (case video of
        None \<Rightarrow> []
      | Some (videoWidth, videoHeight) \<Rightarrow>
          if \<not> canvas then []
          else (case frameImg of
                  None \<Rightarrow> []
                | Some img \<Rightarrow>
                    [SetCanvasSize 1080 1920,
                     FillRect ''#ffffff'' 0 0 1080 1920,
                     DrawImage SourceFrame (VideoEditor_geometry videoWidth videoHeight),
                     DrawImage (OverlayAsset img) (Some full_canvas)]))"

definition VideoEditor_loadFrame :: "bool \<Rightarrow> image_state option \<Rightarrow> image_state option" where
  "VideoEditor_loadFrame loads frameImageRef = (if loads then Some Complete else frameImageRef)"

section \<open>The real-time capture job of FallbackVideoProcessor\<close>

text \<open>
  JavaScript runs one handler at a time, to completion. An asynchronous method is
  modelled by its handlers: each is a function on the state, and a run is the list of
  events the browser delivers, folded over the state. What the browser decides (whether
  the video loads, what time the playing video shows at an animation frame, when the
  \<open>ended\<close> event and the timers fire) is in the events.

  A video element as a handler sees it. \<open>currentTime\<close> and \<open>duration\<close> are in seconds
  and never negative; only finite durations are modelled.
\<close>

record video_state =
  v_currentTime :: rat
  v_ended :: bool
  v_videoWidth :: nat
  v_videoHeight :: nat

text \<open>A blob: the sizes of its parts, and its MIME type.\<close>

record blob =
  blob_parts :: "nat list"
  blob_type :: string

datatype recorder_state = Inactive | Recording

text \<open>
  The state of one job, from the moment the promise's executor has run: the
  \<open>MediaRecorder\<close>, the chunks collected, the closure variables of the executor
  (\<open>duration\<close>, \<open>frameCount\<close>), whether an animation frame callback is requested, the
  number of pending \<^verbatim>\<open>setTimeout(() => { recorder.stop(); }, 500)\<close> timers, the values
  passed to \<open>onProgress\<close> so far, the drawing calls made on the canvas, and the
  settlement of the promise.
\<close>

record fb_job =
  fj_duration :: rat
  fj_onProgress :: bool
  fj_frameImage :: "image_state option"
  fj_mimeType :: string
  fj_recorder :: recorder_state
  fj_chunks :: "nat list"
  fj_frameCount :: nat
  fj_rafPending :: bool
  fj_stopTimers :: nat
  fj_progress :: "rat list"
  fj_canvas :: "draw_op list"
  fj_settled :: "(js_error + blob) option"

datatype fb_event =
    PlayFulfilled video_state
  | PlayRejected js_error
  | AnimationFrame rat video_state
  | EndedEvent
  | StopTimer
  | DataAvailable nat
  | RecorderError js_error

text \<open>\<^verbatim>\<open>if (onProgress) onProgress(p)\<close>\<close>

definition fj_report :: "rat \<Rightarrow> fb_job \<Rightarrow> fb_job" where
  "fj_report p j = (if fj_onProgress j then j\<lparr>fj_progress := fj_progress j @ [p]\<rparr> else j)"

text \<open>\<open>resolve\<close> and \<open>reject\<close>: only the first call settles a promise.\<close>

definition fj_settle :: "js_error + blob \<Rightarrow> fb_job \<Rightarrow> fb_job" where
  "fj_settle r j = (case fj_settled j of None \<Rightarrow> j\<lparr>fj_settled := Some r\<rparr> | Some _ \<Rightarrow> j)"

text \<open>
  \<open>recorder.stop()\<close> followed by the recorder's \<open>stop\<close> event, whose handler is
  \<^verbatim>\<open>
    recorder.onstop = () => {
        const blob = new Blob(chunks, { type: recorderOptions.mimeType || 'video/webm' });
        resolve(blob);
    };
  \<close>
  On an inactive recorder \<open>stop()\<close> throws \<open>InvalidStateError\<close>; the exception leaves the
  timer callback and nothing else happens.
\<close>

definition fj_recorder_stop :: "fb_job \<Rightarrow> fb_job" where
  "fj_recorder_stop j =
     (case fj_recorder j of
        Inactive \<Rightarrow> j
      | Recording \<Rightarrow>
          fj_settle
            (Inr \<lparr>blob_parts = fj_chunks j,
                  blob_type = (if fj_mimeType j = [] then ''video/webm'' else fj_mimeType j)\<rparr>)
            (j\<lparr>fj_recorder := Inactive\<rparr>))"

text \<open>
  \<^verbatim>\<open>
    const processFrames = () => {
        if (processingVideo.ended || processingVideo.currentTime >= duration) {
            if (onProgress) onProgress(1.0);
            setTimeout(() => { recorder.stop(); }, 500);
            return;
        }
        ... fill, draw the video frame, draw the overlay ...
        if (onProgress && frameCount % 10 === 0) {
            const progress = Math.min(processingVideo.currentTime / duration, 0.99);
            onProgress(progress);
        }
        frameCount++;
        requestAnimationFrame(processFrames);
    };
  \<close>
  In the second branch \<open>currentTime < duration\<close>, so the duration is positive there.
\<close>

definition processFrames :: "video_state \<Rightarrow> fb_job \<Rightarrow> fb_job" where
  "processFrames v j =
     (if v_ended v \<or> v_currentTime v \<ge> fj_duration j
      then (fj_report 1 j)\<lparr>fj_stopTimers := fj_stopTimers j + 1\<rparr>
      else
        let j1 = j\<lparr>fj_canvas := fj_canvas j @
                     Fallback_drawFrame (fj_frameImage j) (v_videoWidth v) (v_videoHeight v)\<rparr>;
            j2 = (if fj_frameCount j1 mod 10 = 0
                  then fj_report (min (v_currentTime v / fj_duration j1) (99 / 100)) j1
                  else j1)
        in j2\<lparr>fj_frameCount := fj_frameCount j2 + 1, fj_rafPending := True\<rparr>)"

text \<open>
  The handlers. After \<open>play()\<close> is fulfilled: \<^verbatim>\<open>if (onProgress) onProgress(0); processFrames();\<close>
  after it is rejected: \<^verbatim>\<open>reject(error)\<close>. An animation frame runs \<open>processFrames\<close> when
  one was requested. The listener of the video's \<open>ended\<close> event is
  \<^verbatim>\<open>
    processingVideo.addEventListener('ended', () => {
        if (onProgress) onProgress(1.0);
        setTimeout(() => { recorder.stop(); }, 500);
    });
  \<close>
  \<open>StopTimer\<close> is one of the pending 500 ms timers firing. The recorder's
  \<open>dataavailable\<close> handler keeps chunks of positive size, its \<open>error\<close> handler rejects.
\<close>

fun fb_step :: "fb_event \<Rightarrow> fb_job \<Rightarrow> fb_job" where
  "fb_step (PlayFulfilled v) j = processFrames v (fj_report 0 j)"
| "fb_step (PlayRejected e) j = fj_settle (Inl e) j"
| "fb_step (AnimationFrame t v) j =
     (if fj_rafPending j then processFrames v (j\<lparr>fj_rafPending := False\<rparr>) else j)"
| "fb_step EndedEvent j = (fj_report 1 j)\<lparr>fj_stopTimers := fj_stopTimers j + 1\<rparr>"
| "fb_step StopTimer j =
     (if fj_stopTimers j = 0 then j
      else fj_recorder_stop (j\<lparr>fj_stopTimers := fj_stopTimers j - 1\<rparr>))"
| "fb_step (DataAvailable n) j = (if n > 0 then j\<lparr>fj_chunks := fj_chunks j @ [n]\<rparr> else j)"
| "fb_step (RecorderError e) j = fj_settle (Inl e) j"

definition fb_run :: "fb_event list \<Rightarrow> fb_job \<Rightarrow> fb_job" where
  "fb_run evs j = fold fb_step evs j"

text \<open>
  The codec choice of the fallback, all in a WebM container:
  \<^verbatim>\<open>
    if (MediaRecorder.isTypeSupported('video/webm;codecs=vp9,opus')) {
        recorderOptions.mimeType = 'video/webm;codecs=vp9,opus';
    } else if (MediaRecorder.isTypeSupported('video/webm;codecs=vp8,opus')) {
        recorderOptions.mimeType = 'video/webm;codecs=vp8,opus';
    } else if (MediaRecorder.isTypeSupported('video/webm;codecs=h264,opus')) {
        recorderOptions.mimeType = 'video/webm;codecs=h264,opus';
    } else {
        recorderOptions.mimeType = 'video/webm';
    }
  \<close>
\<close>

definition Fallback_mimeType :: "(string \<Rightarrow> bool) \<Rightarrow> string" where
  "Fallback_mimeType isTypeSupported =
     (if isTypeSupported ''video/webm;codecs=vp9,opus'' then ''video/webm;codecs=vp9,opus''
      else if isTypeSupported ''video/webm;codecs=vp8,opus'' then ''video/webm;codecs=vp8,opus''
      else if isTypeSupported ''video/webm;codecs=h264,opus'' then ''video/webm;codecs=h264,opus''
      else ''video/webm'')"

text \<open>The job as the executor leaves it: the recorder started, nothing drawn or reported.\<close>

definition fb_job_start :: "rat \<Rightarrow> bool \<Rightarrow> image_state option \<Rightarrow> string \<Rightarrow> fb_job" where
  "fb_job_start duration onProgress frameImage mimeType =
     \<lparr>fj_duration = duration, fj_onProgress = onProgress, fj_frameImage = frameImage,
      fj_mimeType = mimeType, fj_recorder = Recording, fj_chunks = [], fj_frameCount = 0,
      fj_rafPending = False, fj_stopTimers = 0, fj_progress = [], fj_canvas = [],
      fj_settled = None\<rparr>"

subsection \<open>FallbackVideoProcessor.processVideo\<close>

record FallbackVideoProcessor =
  fb_frameImage :: "image_state option"
  fb_isProcessing :: bool

definition Fallback_new :: FallbackVideoProcessor where
  "Fallback_new = \<lparr>fb_frameImage = None, fb_isProcessing = False\<rparr>"

text \<open>
  What the browser does during one call: whether the hidden video element fails to load,
  its duration, which recorder types are supported, whether constructing or starting the
  \<open>MediaRecorder\<close> throws, and the events delivered afterwards.
\<close>

record fb_env =
  fe_videoLoadError :: "js_error option"
  fe_duration :: rat
  fe_isTypeSupported :: "string \<Rightarrow> bool"
  fe_recorderError :: "js_error option"
  fe_events :: "fb_event list"

text \<open>
  The method up to its first \<open>await\<close>:
  \<^verbatim>\<open>
    if (this.isProcessing) {
        throw new Error('Another video is being processed');
    }
    this.isProcessing = true;
  \<close>
\<close>

definition Fallback_processVideo_begin ::
  "FallbackVideoProcessor \<Rightarrow> (js_error + unit) \<times> FallbackVideoProcessor" where
  "Fallback_processVideo_begin s =
     (if fb_isProcessing s then (Inl (Error ''Another video is being processed''), s)
      else (Inr (), s\<lparr>fb_isProcessing := True\<rparr>))"

text \<open>
  The rest of the method is \<^verbatim>\<open>try { ... return new Promise(...) } finally { this.isProcessing = false; }\<close>:
  the \<open>finally\<close> block runs when the \<open>try\<close> block is left, by an exception or by
  returning the promise, which is not awaited there. The result is the settlement of the
  returned promise after the events of the environment (\<open>None\<close>: still pending), with the
  final state of the job when one was started.
\<close>

definition Fallback_processVideo_continue ::
  "fb_env \<Rightarrow> bool \<Rightarrow> FallbackVideoProcessor \<Rightarrow>
   (js_error + blob) option \<times> fb_job option \<times> FallbackVideoProcessor" where
  "Fallback_processVideo_continue env onProgress s =
     (case fe_videoLoadError env of
        Some e \<Rightarrow> (Some (Inl e), None, s\<lparr>fb_isProcessing := False\<rparr>)
      | None \<Rightarrow>
          (case fe_recorderError env of
             Some e \<Rightarrow> (Some (Inl e), None, s\<lparr>fb_isProcessing := False\<rparr>)
           | None \<Rightarrow>
               let j = fb_run (fe_events env)
                         (fb_job_start (fe_duration env) onProgress (fb_frameImage s)
                            (Fallback_mimeType (fe_isTypeSupported env)))
               in (fj_settled j, Some j, s\<lparr>fb_isProcessing := False\<rparr>)))"

definition Fallback_processVideo ::
  "fb_env \<Rightarrow> bool \<Rightarrow> string \<Rightarrow> FallbackVideoProcessor \<Rightarrow>
   (js_error + blob) option \<times> fb_job option \<times> FallbackVideoProcessor" where
  "Fallback_processVideo env onProgress outputFormat s =
     (case Fallback_processVideo_begin s of
        (Inl e, s') \<Rightarrow> (Some (Inl e), None, s')
      | (Inr _, s') \<Rightarrow> Fallback_processVideo_continue env onProgress s')"

section \<open>Strings\<close>






section \<open>The external encoder adapter\<close>

text \<open>
  The fields of \<open>FFmpegVideoProcessor\<close>. \<open>loadingPromise\<close> is null or a promise, pending
  or fulfilled (\<open>_loadFFmpeg\<close> catches every error and returns \<open>false\<close>, so the promise is
  never rejected). A progress callback is modelled by a number that identifies it. Two
  more fields record effects: \<open>ff_loads\<close> counts the calls of \<open>_loadFFmpeg\<close>, and
  \<open>ff_reported\<close> lists the calls made to progress callbacks, each with its argument.
\<close>

datatype 'a promise = Pending | Fulfilled 'a

record FFmpegVideoProcessor =
  ff_isLoaded :: bool
  ff_isProcessing :: bool
  ff_frameImage :: "blob option"
  ff_loadingPromise :: "bool promise option"
  ff_currentProgressCallback :: "nat option"
  ff_loads :: nat
  ff_reported :: "(nat \<times> rat) list"

definition FFmpeg_new :: FFmpegVideoProcessor where
  "FFmpeg_new =
     \<lparr>ff_isLoaded = False, ff_isProcessing = False, ff_frameImage = None,
      ff_loadingPromise = None, ff_currentProgressCallback = None,
      ff_loads = 0, ff_reported = []\<rparr>"

subsection \<open>The command\<close>










subsection \<open>Initialisation\<close>

text \<open>
  \<^verbatim>\<open>
    async initialize() {
        if (this.isLoaded) return true;
        if (this.loadingPromise) {
            return await this.loadingPromise;
        }
        this.loadingPromise = this._loadFFmpeg();
        return await this.loadingPromise;
    }
  \<close>
  The part of a call that runs at once either returns \<open>true\<close> or leaves the call waiting
  for \<open>loadingPromise\<close>; the third branch calls \<open>_loadFFmpeg\<close> first.
\<close>

datatype init_result = ReturnsTrue | AwaitsLoadingPromise

definition ff_initialize :: "FFmpegVideoProcessor \<Rightarrow> init_result \<times> FFmpegVideoProcessor" where
  "ff_initialize s =
     (if ff_isLoaded s then (ReturnsTrue, s)
      else if ff_loadingPromise s \<noteq> None then (AwaitsLoadingPromise, s)
      else (AwaitsLoadingPromise,
            s\<lparr>ff_loadingPromise := Some Pending, ff_loads := ff_loads s + 1\<rparr>))"

text \<open>
  \<open>_loadFFmpeg\<close> ends with \<^verbatim>\<open>this.isLoaded = true; return true;\<close> or, on any error, with
  \<^verbatim>\<open>this.isLoaded = false; return false;\<close>. The return fulfils the pending promise.
\<close>

definition ff_load_settles :: "bool \<Rightarrow> FFmpegVideoProcessor \<Rightarrow> FFmpegVideoProcessor" where
  "ff_load_settles loaded s =
     (case ff_loadingPromise s of
        Some Pending \<Rightarrow> s\<lparr>ff_isLoaded := loaded, ff_loadingPromise := Some (Fulfilled loaded)\<rparr>
      | _ \<Rightarrow> s)"

text \<open>
  \<^verbatim>\<open>await this.initialize()\<close> as one step: the value the call gets and the state then. A
  call that finds the load pending waits until it settles, with the result the
  environment gives.
\<close>

definition ff_await_initialize :: "bool \<Rightarrow> FFmpegVideoProcessor \<Rightarrow> bool \<times> FFmpegVideoProcessor" where
  "ff_await_initialize loadResult s =
     (case ff_initialize s of
        (ReturnsTrue, s1) \<Rightarrow> (True, s1)
      | (AwaitsLoadingPromise, s1) \<Rightarrow>
          (case ff_loadingPromise s1 of
             Some (Fulfilled b) \<Rightarrow> (b, s1)
           | _ \<Rightarrow> (loadResult, ff_load_settles loadResult s1)))"

text \<open>\<^verbatim>\<open>terminate() { if (this.isLoaded && this.ffmpeg) { this.ffmpeg.terminate(); this.isLoaded = false; } }\<close>\<close>

definition ff_terminate :: "FFmpegVideoProcessor \<Rightarrow> FFmpegVideoProcessor" where
  "ff_terminate s = (if ff_isLoaded s then s\<lparr>ff_isLoaded := False\<rparr> else s)"

text \<open>\<open>loadFrame\<close> fetches the frame; on the response \<open>fetched\<close> it stores the blob.\<close>

definition ff_loadFrame :: "blob option \<Rightarrow> FFmpegVideoProcessor \<Rightarrow> (js_error + unit) \<times> FFmpegVideoProcessor" where
  "ff_loadFrame fetched s =
     (case fetched of
        None \<Rightarrow> (Inl (Error ''Failed to fetch frame image''), s)
      | Some b \<Rightarrow> (Inr (), s\<lparr>ff_frameImage := Some b\<rparr>))"

subsection \<open>FFmpegVideoProcessor.processVideo\<close>

text \<open>
  What the collaborators do during one job: \<open>_extractVideoBlob\<close>, the two \<open>writeFile\<close>
  calls, \<open>exec\<close> (the progress values the engine emits while it runs, and whether it
  throws), and \<open>readFile\<close> (the size of the output).
\<close>

record ff_env =
  ffe_extractVideoBlob :: "js_error + blob"
  ffe_writeVideo :: "js_error option"
  ffe_writeFrame :: "js_error option"
  ffe_execProgress :: "rat list"
  ffe_execError :: "js_error option"
  ffe_readFile :: "js_error + nat"

text \<open>
  After \<^verbatim>\<open>await this.initialize()\<close> has given \<open>initialized\<close>:
  \<^verbatim>\<open>
    if (!await this.initialize()) {
        throw new Error('FFmpeg initialization failed');
    }
    if (this.isProcessing) {
        throw new Error('Another video is currently being processed');
    }
    this.isProcessing = true;
    this.currentProgressCallback = onProgress;
  \<close>
\<close>

definition ff_processVideo_resume ::
  "bool \<Rightarrow> nat option \<Rightarrow> FFmpegVideoProcessor \<Rightarrow> (js_error + unit) \<times> FFmpegVideoProcessor" where
  "ff_processVideo_resume initialized onProgress s =
     (if \<not> initialized then (Inl (Error ''FFmpeg initialization failed''), s)
      else if ff_isProcessing s
        then (Inl (Error ''Another video is currently being processed''), s)
      else (Inr (), s\<lparr>ff_isProcessing := True, ff_currentProgressCallback := onProgress\<rparr>))"

text \<open>
  The listener registered on the engine:
  \<^verbatim>\<open>if (this.currentProgressCallback) { this.currentProgressCallback(progress); }\<close>
\<close>

definition ff_engine_progress :: "rat list \<Rightarrow> FFmpegVideoProcessor \<Rightarrow> FFmpegVideoProcessor" where
  "ff_engine_progress ps s =
     (case ff_currentProgressCallback s of
        None \<Rightarrow> s
      | Some cb \<Rightarrow> s\<lparr>ff_reported := ff_reported s @ map (Pair cb) ps\<rparr>)"


text \<open>
  The \<open>try\<close> block: extract the video blob, write it, write the frame when there is one,
  execute \<open>ff_command\<close>, read the output, build the blob, and
  \<^verbatim>\<open>if (onProgress) { onProgress(1.0); }\<close>. The first collaborator that throws ends it.
\<close>

definition ff_try ::
  "ff_env \<Rightarrow> nat option \<Rightarrow> string \<Rightarrow> FFmpegVideoProcessor \<Rightarrow> (js_error + blob) \<times> FFmpegVideoProcessor" where
  "ff_try env onProgress outputFormat s =
     (case ffe_extractVideoBlob env of
        Inl e \<Rightarrow> (Inl e, s)
      | Inr videoBlob \<Rightarrow>
          (case ffe_writeVideo env of
             Some e \<Rightarrow> (Inl e, s)
           | None \<Rightarrow>
               (case (if ff_frameImage s \<noteq> None then ffe_writeFrame env else None) of
                  Some e \<Rightarrow> (Inl e, s)
                | None \<Rightarrow>
                    let s1 = ff_engine_progress (ffe_execProgress env) s
                    in (case ffe_execError env of
                          Some e \<Rightarrow> (Inl e, s1)
                        | None \<Rightarrow>
                            (case ffe_readFile env of
                               Inl e \<Rightarrow> (Inl e, s1)
                             | Inr outputData \<Rightarrow>
                                 let mimeType = (if outputFormat = ''mp4'' then ''video/mp4''
                                                 else ''video/webm'');
                                     processedBlob = \<lparr>blob_parts = [outputData], blob_type = mimeType\<rparr>;
                                     s2 = (case onProgress of
                                             None \<Rightarrow> s1
                                           | Some cb \<Rightarrow> s1\<lparr>ff_reported := ff_reported s1 @ [(cb, 1)]\<rparr>)
                                 in (Inr processedBlob, s2))))))"

text \<open>
  \<^verbatim>\<open>
    } catch (error) {
        console.error('FFmpeg video processing failed:', error);
        throw error;
    } finally {
        this.isProcessing = false;
        this.currentProgressCallback = null;
    }
  \<close>
\<close>

definition ff_finally :: "FFmpegVideoProcessor \<Rightarrow> FFmpegVideoProcessor" where
  "ff_finally s = s\<lparr>ff_isProcessing := False, ff_currentProgressCallback := None\<rparr>"

definition ff_job ::
  "ff_env \<Rightarrow> nat option \<Rightarrow> string \<Rightarrow> FFmpegVideoProcessor \<Rightarrow> (js_error + blob) \<times> FFmpegVideoProcessor" where
  "ff_job env onProgress outputFormat s =
     (case ff_try env onProgress outputFormat s of (r, s') \<Rightarrow> (r, ff_finally s'))"

text \<open>A whole call with nothing else running in between.\<close>

definition ff_processVideo ::
  "bool \<Rightarrow> ff_env \<Rightarrow> nat option \<Rightarrow> string \<Rightarrow> FFmpegVideoProcessor \<Rightarrow>
   (js_error + blob) \<times> FFmpegVideoProcessor" where
  "ff_processVideo loadResult env onProgress outputFormat s =
     (case ff_await_initialize loadResult s of
        (initialized, s1) \<Rightarrow>
          (case ff_processVideo_resume initialized onProgress s1 of
             (Inl e, s2) \<Rightarrow> (Inl e, s2)
           | (Inr _, s2) \<Rightarrow> ff_job env onProgress outputFormat s2))"

subsection \<open>The life of a processor\<close>

text \<open>
  The steps that can happen to one \<open>FFmpegVideoProcessor\<close>, in any order: a call of
  \<open>initialize\<close> (also the one at the start of \<open>processVideo\<close>), the load settling,
  \<open>terminate\<close>, \<open>loadFrame\<close>, a \<open>processVideo\<close> call resuming once the promise it waited
  for is fulfilled, with the promise's value, and the job in flight running to its end;
  the job's \<open>onProgress\<close> is the callback stored when it began.
\<close>

datatype ff_event =
    CallInitialize
  | LoadSettles bool
  | CallTerminate
  | CallLoadFrame "blob option"
  | ResumeProcessVideo "nat option"
  | JobEnds ff_env string

fun ff_step :: "ff_event \<Rightarrow> FFmpegVideoProcessor \<Rightarrow> FFmpegVideoProcessor" where
  "ff_step CallInitialize s = snd (ff_initialize s)"
| "ff_step (LoadSettles b) s = ff_load_settles b s"
| "ff_step CallTerminate s = ff_terminate s"
| "ff_step (CallLoadFrame fetched) s = snd (ff_loadFrame fetched s)"
| "ff_step (ResumeProcessVideo onProgress) s =
     (case ff_loadingPromise s of
        Some (Fulfilled b) \<Rightarrow> snd (ff_processVideo_resume b onProgress s)
      | _ \<Rightarrow> s)"
| "ff_step (JobEnds env outputFormat) s =
     (if ff_isProcessing s
      then snd (ff_job env (ff_currentProgressCallback s) outputFormat s)
      else s)"

definition ff_run :: "ff_event list \<Rightarrow> FFmpegVideoProcessor \<Rightarrow> FFmpegVideoProcessor" where
  "ff_run evs s = fold ff_step evs s"

text \<open>
  What holds of a processor throughout its life: it is loaded, or busy, only once the
  loading promise has been fulfilled with \<open>true\<close>, and \<open>_loadFFmpeg\<close> has been called
  once if there is a loading promise and never otherwise.
\<close>

definition ff_inv :: "FFmpegVideoProcessor \<Rightarrow> bool" where
  "ff_inv s \<longleftrightarrow>
     (ff_isLoaded s \<longrightarrow> ff_loadingPromise s = Some (Fulfilled True)) \<and>
     (ff_isProcessing s \<longrightarrow> ff_loadingPromise s = Some (Fulfilled True)) \<and>
     ff_loads s = (if ff_loadingPromise s = None then 0 else 1)"

section \<open>The fallback selector\<close>










section \<open>The capture job of VideoFrameProcessor\<close>









section \<open>Example inputs\<close>

text \<open>
  A 1920 by 1080 video seen at a playback time, still playing or ended; a browser in
  which the two-second video loads, every recorder type is supported and the recorder
  starts, delivering the given events; an encoder run that emits one progress value and
  whose \<open>exec\<close> throws or not.
\<close>

definition playing_at :: "rat \<Rightarrow> video_state" where
  "playing_at t = \<lparr>v_currentTime = t, v_ended = False, v_videoWidth = 1920, v_videoHeight = 1080\<rparr>"


definition browser :: "fb_event list \<Rightarrow> fb_env" where
  "browser evs =
     \<lparr>fe_videoLoadError = None, fe_duration = 2, fe_isTypeSupported = (\<lambda>t. True),
      fe_recorderError = None, fe_events = evs\<rparr>"

definition engine :: "js_error option \<Rightarrow> ff_env" where
  "engine execError =
     \<lparr>ffe_extractVideoBlob = Inr \<lparr>blob_parts = [1000], blob_type = ''video/mp4''\<rparr>,
      ffe_writeVideo = None, ffe_writeFrame = None, ffe_execProgress = [1 / 2],
      ffe_execError = execError, ffe_readFile = Inr 900\<rparr>"

section \<open>Properties\<close>

subsection \<open>Geometry\<close>














subsection \<open>The overlay step\<close>

text \<open>
  C7 (as amended). In \<open>VideoFrameProcessor.processFrame\<close> and in the frame loop of
  \<open>FallbackVideoProcessor.processVideo\<close>, when the processor holds no overlay image
  (\<open>frameImage\<close> is null, which in \<open>FallbackVideoProcessor\<close> is also the state after a
  failed first load), only the overlay draw is skipped: the background fill and the
  source frame are drawn exactly as with an overlay, and a frame with an overlay is the
  same calls followed by the overlay draw. \<open>VideoEditor.drawFrame\<close> draws nothing when
  its frame image has not loaded.
\<close>

theorem overlay_missing_skips_only_overlay:
  "VideoFrameProcessor_processFrame None vw vh =
     [SetCanvasSize 1080 1920, FillRect ''#000000'' 0 0 1080 1920,
      DrawImage SourceFrame (VideoFrameProcessor_geometry vw vh)] \<and>
   VideoFrameProcessor_processFrame (Some img) vw vh =
     VideoFrameProcessor_processFrame None vw vh @ [DrawImage (OverlayAsset img) (Some full_canvas)] \<and>
   snd (Fallback_loadFrame False None) = None \<and>
   Fallback_drawFrame None vw vh =
     [FillRect ''#000000'' 0 0 1080 1920,
      DrawImage SourceFrame (Some (Fallback_geometry vw vh))] \<and>
   Fallback_drawFrame (Some img) vw vh =
     Fallback_drawFrame None vw vh @ [DrawImage (OverlayAsset img) (Some full_canvas)] \<and>
   VideoEditor_drawFrame video canvas (VideoEditor_loadFrame False None) = []"
  by (simp add: VideoFrameProcessor_processFrame_def Fallback_loadFrame_def Fallback_drawFrame_def
      VideoEditor_drawFrame_def VideoEditor_loadFrame_def split: option.split prod.split)

text \<open>
  C7 as stated fails on \<open>VideoEditor.drawFrame\<close>: with a 1920 by 1080 video, a canvas and
  a frame image whose load failed, the guard returns before the background fill and the
  source frame: nothing is drawn.
\<close>

theorem VideoEditor_draws_nothing_counterexample:
  "VideoEditor_drawFrame (Some (1920, 1080)) True (VideoEditor_loadFrame False None) = []"
  by (simp add: VideoEditor_drawFrame_def VideoEditor_loadFrame_def)

subsection \<open>The encoder's command\<close>














subsection \<open>Progress of the fallback job\<close>

text \<open>
  C3, evaluated. A two-second video played to its natural end by the fallback, with a
  progress callback: \<open>play()\<close> is fulfilled at time 0, an animation frame sees time 1, the
  video ends and its \<open>ended\<close> event is delivered, the next animation frame sees the
  video ended, a chunk arrives, and the two 500 ms timers fire. The callback receives
  \<open>0, 0, 1, 1\<close>: the value 1 is reported by the \<open>ended\<close> listener and again by
  \<open>processFrames\<close>, both before the promise is resolved by the first timer.
\<close>

theorem fallback_reports_completion_twice:
  "fj_progress
     (fb_run
        [PlayFulfilled \<lparr>v_currentTime = 0, v_ended = False, v_videoWidth = 1920, v_videoHeight = 1080\<rparr>,
         AnimationFrame 1000 \<lparr>v_currentTime = 1, v_ended = False, v_videoWidth = 1920, v_videoHeight = 1080\<rparr>,
         EndedEvent,
         AnimationFrame 2000 \<lparr>v_currentTime = 2, v_ended = True, v_videoWidth = 1920, v_videoHeight = 1080\<rparr>,
         DataAvailable 4096,
         StopTimer,
         StopTimer]
        (fb_job_start 2 True (Some Complete) ''video/webm'')) = [0, 0, 1, 1] \<and>
   fj_settled
     (fb_run
        [PlayFulfilled \<lparr>v_currentTime = 0, v_ended = False, v_videoWidth = 1920, v_videoHeight = 1080\<rparr>,
         AnimationFrame 1000 \<lparr>v_currentTime = 1, v_ended = False, v_videoWidth = 1920, v_videoHeight = 1080\<rparr>,
         EndedEvent,
         AnimationFrame 2000 \<lparr>v_currentTime = 2, v_ended = True, v_videoWidth = 1920, v_videoHeight = 1080\<rparr>,
         DataAvailable 4096]
        (fb_job_start 2 True (Some Complete) ''video/webm'')) = None \<and>
   fj_settled
     (fb_run
        [PlayFulfilled \<lparr>v_currentTime = 0, v_ended = False, v_videoWidth = 1920, v_videoHeight = 1080\<rparr>,
         AnimationFrame 1000 \<lparr>v_currentTime = 1, v_ended = False, v_videoWidth = 1920, v_videoHeight = 1080\<rparr>,
         EndedEvent,
         AnimationFrame 2000 \<lparr>v_currentTime = 2, v_ended = True, v_videoWidth = 1920, v_videoHeight = 1080\<rparr>,
         DataAvailable 4096,
         StopTimer,
         StopTimer]
        (fb_job_start 2 True (Some Complete) ''video/webm'')) =
     Some (Inr \<lparr>blob_parts = [4096], blob_type = ''video/webm''\<rparr>)"
  by (simp add: fb_run_def fb_job_start_def processFrames_def fj_report_def fj_settle_def
      fj_recorder_stop_def Let_def)

subsection \<open>The life of the encoder adapter\<close>

lemma ff_try_fields:
  "ff_isLoaded (snd (ff_try env cb fmt s)) = ff_isLoaded s \<and>
   ff_isProcessing (snd (ff_try env cb fmt s)) = ff_isProcessing s \<and>
   ff_loadingPromise (snd (ff_try env cb fmt s)) = ff_loadingPromise s \<and>
   ff_loads (snd (ff_try env cb fmt s)) = ff_loads s \<and>
   ff_frameImage (snd (ff_try env cb fmt s)) = ff_frameImage s"
  by (simp add: ff_try_def ff_engine_progress_def Let_def
      split: sum.split option.split)

lemma ff_job_fields:
  "ff_isLoaded (snd (ff_job env cb fmt s)) = ff_isLoaded s \<and>
   \<not> ff_isProcessing (snd (ff_job env cb fmt s)) \<and>
   ff_currentProgressCallback (snd (ff_job env cb fmt s)) = None \<and>
   ff_loadingPromise (snd (ff_job env cb fmt s)) = ff_loadingPromise s \<and>
   ff_loads (snd (ff_job env cb fmt s)) = ff_loads s"
proof (cases "ff_try env cb fmt s")
  case (Pair r s')
  with ff_try_fields [of env cb fmt s] show ?thesis
    by (simp add: ff_job_def ff_finally_def)
qed













subsection \<open>The busy flag\<close>

lemma busy_flag_rejects_ffmpeg:
  assumes "ff_inv s" and "ff_isProcessing s"
  shows "ff_processVideo loadResult env onProgress outputFormat s =
           (Inl (Error ''Another video is currently being processed''), s)"
  using assms
  by (auto simp add: ff_inv_def ff_processVideo_def ff_await_initialize_def ff_initialize_def
      ff_processVideo_resume_def split: option.split promise.split)

lemma busy_flag_rejects_fallback:
  assumes "fb_isProcessing fb"
  shows "Fallback_processVideo env onProgress outputFormat fb =
           (Some (Inl (Error ''Another video is being processed'')), None, fb)"
  using assms by (simp add: Fallback_processVideo_def Fallback_processVideo_begin_def)

text \<open>
  C4, evaluated. A first call of \<open>FallbackVideoProcessor.processVideo\<close> on a new
  processor: the video loads, the recorder starts, \<open>play()\<close> is fulfilled and the first
  frame is drawn. The promise of the call is pending and the recorder is recording: the
  job is active. The \<open>finally\<close> block has already reset \<open>isProcessing\<close>, so a second
  call passes the busy check instead of failing with the busy error.
\<close>

theorem fallback_accepts_call_while_recording:
  "fst (Fallback_processVideo (browser [PlayFulfilled (playing_at 0)]) True ''webm'' Fallback_new) = None \<and>
   map_option fj_recorder
     (fst (snd (Fallback_processVideo (browser [PlayFulfilled (playing_at 0)]) True ''webm'' Fallback_new))) =
     Some Recording \<and>
   fb_isProcessing
     (snd (snd (Fallback_processVideo (browser [PlayFulfilled (playing_at 0)]) True ''webm'' Fallback_new))) =
     False \<and>
   fst (Fallback_processVideo_begin
     (snd (snd (Fallback_processVideo (browser [PlayFulfilled (playing_at 0)]) True ''webm'' Fallback_new)))) =
     Inr ()"
  by (simp add: Fallback_processVideo_def Fallback_processVideo_begin_def
      Fallback_processVideo_continue_def Fallback_new_def fb_run_def fb_job_start_def
      processFrames_def fj_report_def Fallback_mimeType_def Let_def browser_def playing_at_def)

text \<open>
  C10. When a call of \<open>FFmpegVideoProcessor.processVideo\<close> has passed the busy check and
  then throws, at whatever stage (extracting the blob, writing a file, executing,
  reading the output), the processor is left with \<open>isProcessing = false\<close> and
  \<open>currentProgressCallback = null\<close>, and the next call passes the busy check.
\<close>

theorem failed_job_releases_processor:
  assumes "ff_processVideo_resume True onProgress s = (Inr u, s1)"
      and "ff_job env onProgress outputFormat s1 = (Inl e, s2)"
  shows "\<not> ff_isProcessing s2 \<and> ff_currentProgressCallback s2 = None \<and>
         fst (ff_processVideo_resume True onProgress' s2) = Inr ()"
proof -
  from ff_job_fields [of env onProgress outputFormat s1] assms(2)
  have "\<not> ff_isProcessing s2" and "ff_currentProgressCallback s2 = None"
    by simp_all
  then show ?thesis by (simp add: ff_processVideo_resume_def)
qed

theorem failed_job_releases_processor_witness:
  "ff_processVideo_resume True (Some 1) (ff_run [CallInitialize, LoadSettles True] FFmpeg_new) =
     (Inr (),
      \<lparr>ff_isLoaded = True, ff_isProcessing = True, ff_frameImage = None,
       ff_loadingPromise = Some (Fulfilled True), ff_currentProgressCallback = Some 1,
       ff_loads = 1, ff_reported = []\<rparr>) \<and>
   ff_job (engine (Some (Error ''exec failed''))) (Some 1) ''mp4''
     \<lparr>ff_isLoaded = True, ff_isProcessing = True, ff_frameImage = None,
      ff_loadingPromise = Some (Fulfilled True), ff_currentProgressCallback = Some 1,
      ff_loads = 1, ff_reported = []\<rparr> =
     (Inl (Error ''exec failed''),
      \<lparr>ff_isLoaded = True, ff_isProcessing = False, ff_frameImage = None,
       ff_loadingPromise = Some (Fulfilled True), ff_currentProgressCallback = None,
       ff_loads = 1, ff_reported = [(1, 1 / 2)]\<rparr>) \<and>
   fst (ff_processVideo_resume True (Some 2)
     \<lparr>ff_isLoaded = True, ff_isProcessing = False, ff_frameImage = None,
      ff_loadingPromise = Some (Fulfilled True), ff_currentProgressCallback = None,
      ff_loads = 1, ff_reported = [(1, 1 / 2)]\<rparr>) = Inr ()"
  using failed_job_releases_processor
    [where onProgress = "Some 1" and s = "ff_run [CallInitialize, LoadSettles True] FFmpeg_new"
       and u = "()"
       and ?s1.0 = "\<lparr>ff_isLoaded = True, ff_isProcessing = True, ff_frameImage = None,
          ff_loadingPromise = Some (Fulfilled True), ff_currentProgressCallback = Some 1,
          ff_loads = 1, ff_reported = []\<rparr>"
       and env = "engine (Some (Error ''exec failed''))" and outputFormat = "''mp4''"
       and e = "Error ''exec failed''"
       and ?s2.0 = "\<lparr>ff_isLoaded = True, ff_isProcessing = False, ff_frameImage = None,
          ff_loadingPromise = Some (Fulfilled True), ff_currentProgressCallback = None,
          ff_loads = 1, ff_reported = [(1, 1 / 2)]\<rparr>"
       and onProgress' = "Some 2"]
  by (simp add: ff_run_def FFmpeg_new_def ff_initialize_def ff_load_settles_def
      ff_processVideo_resume_def ff_job_def ff_try_def ff_engine_progress_def ff_finally_def
      engine_def Let_def)

subsection \<open>The timeout guard\<close>















subsection \<open>The fallback selector\<close>




















end
